theory Spec2Isabelle
  imports Main
begin

section \<open>JavaScript values\<close>

text \<open>
  The backend (\<^verbatim>\<open>packages/backend/src/app.js\<close> and
  \<^verbatim>\<open>controllers/ItemDetailsController.js\<close>) handles values that come out of
  \<^verbatim>\<open>express.json()\<close>, so a value is one of the JSON shapes or \<^verbatim>\<open>undefined\<close>.
  Numbers are mathematical integers (the fractional and rounding behaviour of doubles is
  outside the model). A string is a list of code units below 256. An object is the list
  of its own properties in enumeration order; lookup takes the first entry for a key.
\<close>

datatype jsval =
    JUndefined
  | JNull
  | JBool bool
  | JNum int
  | JStr string
  | JArr "jsval list"
  | JObj "(string \<times> jsval) list"

text \<open>Truthiness, as used by \<^verbatim>\<open>!x\<close>, \<^verbatim>\<open>x || y\<close> and \<^verbatim>\<open>if (x)\<close>.\<close>

fun truthy :: "jsval \<Rightarrow> bool" where
  "truthy JUndefined = False"
| "truthy JNull = False"
| "truthy (JBool b) = b"
| "truthy (JNum n) = (n \<noteq> 0)"
| "truthy (JStr s) = (s \<noteq> [])"
| "truthy (JArr _) = True"
| "truthy (JObj _) = True"

fun isArray :: "jsval \<Rightarrow> bool" where
  "isArray (JArr _) = True"
| "isArray _ = False"

text \<open>\<^verbatim>\<open>xs.includes(v)\<close> on an array; the callers test \<^verbatim>\<open>isArray\<close> first.\<close>

fun arr_includes :: "jsval \<Rightarrow> jsval \<Rightarrow> bool" where
  "arr_includes (JArr xs) v = (v \<in> set xs)"
| "arr_includes _ v = False"

text \<open>
  Reading a property \<^verbatim>\<open>v.k\<close> (also by destructuring \<^verbatim>\<open>const { k } = v\<close>): a
  \<^verbatim>\<open>TypeError\<close> on \<^verbatim>\<open>undefined\<close> and \<^verbatim>\<open>null\<close> (the result \<open>None\<close>), the own
  property of an object, and \<^verbatim>\<open>undefined\<close> otherwise. The code reads only the fixed keys
  written in the source, none of which is a built-in property of a string, an array or of
  \<^verbatim>\<open>Object.prototype\<close>.
\<close>

fun nullish :: "jsval \<Rightarrow> bool" where
  "nullish JUndefined = True"
| "nullish JNull = True"
| "nullish _ = False"

fun own_prop :: "jsval \<Rightarrow> string \<Rightarrow> jsval" where
  "own_prop (JObj kvs) k = (case map_of kvs k of None \<Rightarrow> JUndefined | Some v \<Rightarrow> v)"
| "own_prop _ k = JUndefined"

definition get_prop :: "jsval \<Rightarrow> string \<Rightarrow> jsval option" where
  "get_prop v k = (if nullish v then None else Some (own_prop v k))"

text \<open>A destructuring default \<^verbatim>\<open>{ k = d } = options\<close> replaces \<^verbatim>\<open>undefined\<close> only.\<close>

definition dflt :: "jsval \<Rightarrow> jsval \<Rightarrow> jsval" where
  "dflt v d = (if v = JUndefined then d else v)"


text \<open>
  White space as \<^verbatim>\<open>String.prototype.trim\<close> and \<^verbatim>\<open>parseInt\<close> see it, among the
  code units below 256: TAB, LF, VT, FF, CR, SPACE and NBSP.
\<close>

definition is_ws :: "char \<Rightarrow> bool" where
  "is_ws c = (of_char c \<in> {9, 10, 11, 12, 13, 32, 160 :: nat})"

definition js_trim :: "string \<Rightarrow> string" where
  "js_trim s = rev (dropWhile is_ws (rev (dropWhile is_ws s)))"

text \<open>
  \<^verbatim>\<open>parseInt(s)\<close> with no radix: leading white space is skipped, a sign is read, a
  \<^verbatim>\<open>0x\<close> or \<^verbatim>\<open>0X\<close> prefix selects radix 16, and the longest run of digits is the
  value; no digit at all gives \<^verbatim>\<open>NaN\<close> (the result \<open>None\<close>).
\<close>

definition digit_val :: "char \<Rightarrow> nat option" where
  "digit_val c =
     (let n = (of_char c :: nat) in
      if 48 \<le> n \<and> n \<le> 57 then Some (n - 48)
      else if 97 \<le> n \<and> n \<le> 122 then Some (n - 87)
      else if 65 \<le> n \<and> n \<le> 90 then Some (n - 55)
      else None)"

definition is_digit :: "nat \<Rightarrow> char \<Rightarrow> bool" where
  "is_digit radix c = (case digit_val c of None \<Rightarrow> False | Some d \<Rightarrow> d < radix)"

definition digits_val :: "nat \<Rightarrow> string \<Rightarrow> nat" where
  "digits_val radix ds = foldl (\<lambda>acc c. acc * radix + (case digit_val c of None \<Rightarrow> 0 | Some d \<Rightarrow> d)) 0 ds"

definition parse_digits :: "nat \<Rightarrow> string \<Rightarrow> nat option" where
  "parse_digits radix s =
     (let ds = takeWhile (is_digit radix) s in
      if ds = [] then None else Some (digits_val radix ds))"

definition parse_unsigned :: "string \<Rightarrow> nat option" where
  "parse_unsigned s =
     (if take 2 s = ''0x'' \<or> take 2 s = ''0X'' then parse_digits 16 (drop 2 s)
      else parse_digits 10 s)"

definition js_parseInt :: "string \<Rightarrow> int option" where
  "js_parseInt s =
     (let t = dropWhile is_ws s in
      case t of
        [] \<Rightarrow> None
      | c # r \<Rightarrow>
          if c = CHR ''-'' then map_option (\<lambda>n. - int n) (parse_unsigned r)
          else if c = CHR ''+'' then map_option int (parse_unsigned r)
          else map_option int (parse_unsigned t))"

section \<open>Text helpers\<close>

text \<open>Decimal text of a number, as template literals and \<^verbatim>\<open>JSON.stringify\<close> print it.\<close>

fun show_nat :: "nat \<Rightarrow> string" where
  "show_nat n =
     (if n < 10 then [char_of (48 + n)]
      else show_nat (n div 10) @ [char_of (48 + n mod 10)])"

definition show_int :: "int \<Rightarrow> string" where
  "show_int i = (if i < 0 then CHR ''-'' # show_nat (nat (- i)) else show_nat (nat i))"

fun join :: "string \<Rightarrow> string list \<Rightarrow> string" where
  "join sep [] = []"
| "join sep [x] = x"
| "join sep (x # y # ys) = x @ sep @ join sep (y # ys)"

text \<open>
  \<^verbatim>\<open>JSON.stringify(v)\<close>: \<^verbatim>\<open>undefined\<close> for \<^verbatim>\<open>undefined\<close>, otherwise the string
  holding the JSON text with no white space. Inside an array \<^verbatim>\<open>undefined\<close> prints as
  \<^verbatim>\<open>null\<close>; a property whose value is \<^verbatim>\<open>undefined\<close> is left out. In a string the
  quote, the backslash and the code units below 32 are escaped.
\<close>

definition hex_digit :: "nat \<Rightarrow> char" where
  "hex_digit n = (if n < 10 then char_of (48 + n) else char_of (87 + n))"

definition escape_char :: "char \<Rightarrow> string" where
  "escape_char c =
     (let n = (of_char c :: nat) in
      if n = 34 then [CHR 0x5C, CHR 0x22]
      else if n = 92 then [CHR 0x5C, CHR 0x5C]
      else if n = 8 then [CHR 0x5C, CHR ''b'']
      else if n = 9 then [CHR 0x5C, CHR ''t'']
      else if n = 10 then [CHR 0x5C, CHR ''n'']
      else if n = 12 then [CHR 0x5C, CHR ''f'']
      else if n = 13 then [CHR 0x5C, CHR ''r'']
      else if n < 32 then [CHR 0x5C, CHR ''u'', CHR ''0'', CHR ''0'', hex_digit (n div 16), hex_digit (n mod 16)]
      else [c])"

definition quote :: "string \<Rightarrow> string" where
  "quote s = CHR 0x22 # concat (map escape_char s) @ [CHR 0x22]"

fun serialize :: "jsval \<Rightarrow> string"
  and serialize_elems :: "jsval list \<Rightarrow> string list"
  and serialize_props :: "(string \<times> jsval) list \<Rightarrow> string list" where
  "serialize JUndefined = ''null''"
| "serialize JNull = ''null''"
| "serialize (JBool b) = (if b then ''true'' else ''false'')"
| "serialize (JNum n) = show_int n"
| "serialize (JStr s) = quote s"
| "serialize (JArr xs) = ''['' @ join '','' (serialize_elems xs) @ '']''"
| "serialize (JObj kvs) = ''{'' @ join '','' (serialize_props kvs) @ ''}''"
| "serialize_elems [] = []"
| "serialize_elems (x # xs) = serialize x # serialize_elems xs"
| "serialize_props [] = []"
| "serialize_props ((k, v) # kvs) =
     (if v = JUndefined then serialize_props kvs
      else (quote k @ '':'' @ serialize v) # serialize_props kvs)"


section \<open>The item\_details table\<close>

text \<open>
  A row of \<^verbatim>\<open>item_details\<close> is the list of its columns in the order of the
  \<^verbatim>\<open>CREATE TABLE\<close> statement, which is also the object \<^verbatim>\<open>SELECT *\<close> returns. The
  table keeps the rows in insertion order and the \<^verbatim>\<open>AUTOINCREMENT\<close> counter. Values
  are stored as they are bound: the coercions of SQLite's column affinity (a number bound
  to a \<^verbatim>\<open>TEXT\<close> column, a numeric text bound to a numeric column) are outside the model.
\<close>

type_synonym row = "(string \<times> jsval) list"

record details_table =
  details_rows :: "row list"
  details_seq :: int

definition row_id :: "row \<Rightarrow> int option" where
  "row_id r = (case map_of r ''id'' of Some (JNum n) \<Rightarrow> Some n | _ \<Rightarrow> None)"



section \<open>HTTP responses and the environment\<close>

record response =
  status :: nat
  body :: jsval

definition respond :: "nat \<Rightarrow> jsval \<Rightarrow> response" where
  "respond st b = \<lparr>status = st, body = b\<rparr>"

definition error_body :: "string \<Rightarrow> jsval" where
  "error_body msg = JObj [(''error'', JStr msg)]"

definition message_body :: "string \<Rightarrow> jsval" where
  "message_body msg = JObj [(''message'', JStr msg)]"

text \<open>
  What a request reads from outside the repository's code: the clock, as the text of
  \<^verbatim>\<open>new Date().toISOString()\<close>, the number \<^verbatim>\<open>Date.now()\<close> and the text SQLite puts
  for \<^verbatim>\<open>CURRENT_TIMESTAMP\<close>; the row id SQLite compares a bound text with in
  \<^verbatim>\<open>WHERE id = ?\<close>; \<^verbatim>\<open>JSON.parse\<close> (\<open>None\<close> when it throws); and what the SQL
  engine does with the \<^verbatim>\<open>UPDATE\<close> statement whose text is assembled from the keys of
  the request, given that text and the bound values: the table left and \<^verbatim>\<open>changes\<close>, or
  \<open>None\<close> when \<^verbatim>\<open>prepare\<close> or \<^verbatim>\<open>run\<close> throws (the table is then unchanged).
\<close>

record env =
  iso_now :: string
  date_now :: int
  sql_now :: string
  text_rowid :: "string \<Rightarrow> int option"
  json_parse :: "string \<Rightarrow> jsval option"
  sql_update :: "string \<Rightarrow> jsval list \<Rightarrow> details_table \<Rightarrow> (details_table \<times> nat) option"

section \<open>The items table and its routes\<close>

text \<open>
  \<^verbatim>\<open>CREATE TABLE items (id INTEGER PRIMARY KEY AUTOINCREMENT, name TEXT NOT NULL,
  created_at TIMESTAMP DEFAULT CURRENT_TIMESTAMP)\<close>. With \<^verbatim>\<open>AUTOINCREMENT\<close> a new row
  gets an id above every id the table has held, kept in \<open>items_seq\<close>.
\<close>

record item =
  item_id :: int
  item_name :: string
  item_created_at :: string

record items_table =
  items_rows :: "item list"
  items_seq :: int




text \<open>\<^verbatim>\<open>DELETE FROM items WHERE id = ?\<close> with a number: the table left and \<^verbatim>\<open>changes\<close>.\<close>

definition delete_item_row :: "int \<Rightarrow> items_table \<Rightarrow> items_table \<times> nat" where
  "delete_item_row n t =
     (t\<lparr>items_rows := filter (\<lambda>r. item_id r \<noteq> n) (items_rows t)\<rparr>,
      length (filter (\<lambda>r. item_id r = n) (items_rows t)))"



text \<open>
  \<^verbatim>\<open>app.delete('/api/items/:id', ...)\<close>; \<^verbatim>\<open>req.params.id\<close> is a text.
\<close>

definition delete_items :: "string \<Rightarrow> items_table \<Rightarrow> response \<times> items_table" where
  "delete_items pid t =
     (if pid = [] \<or> js_parseInt pid = None
      then (respond 400 (error_body ''Valid item ID is required''), t)
      else (let (t', changes) = delete_item_row (the (js_parseInt pid)) t in
            if changes = 0 then (respond 404 (error_body ''Item not found''), t)
            else (respond 200 (message_body ''Item deleted successfully''), t')))"

section \<open>Statements on item\_details\<close>

text \<open>
  better-sqlite3 binds numbers, strings and \<^verbatim>\<open>null\<close> (also bigints and buffers, which
  no JSON body holds); binding anything else throws a \<^verbatim>\<open>TypeError\<close>.
\<close>

fun bindable :: "jsval \<Rightarrow> bool" where
  "bindable JNull = True"
| "bindable (JNum _) = True"
| "bindable (JStr _) = True"
| "bindable _ = False"

definition rowid_of :: "env \<Rightarrow> jsval \<Rightarrow> int option" where
  "rowid_of e v = (case v of JNum n \<Rightarrow> Some n | JStr s \<Rightarrow> text_rowid e s | _ \<Rightarrow> None)"

text \<open>
  \<^verbatim>\<open>prepare('SELECT * FROM item_details WHERE id = ?').get(v)\<close>: \<open>None\<close> when the
  binding throws, \<open>Some None\<close> for \<^verbatim>\<open>undefined\<close> (no row), \<open>Some (Some r)\<close> for a row.
\<close>

definition select_detail :: "env \<Rightarrow> jsval \<Rightarrow> details_table \<Rightarrow> row option option" where
  "select_detail e v t =
     (if \<not> bindable v then None
      else Some (case rowid_of e v of
                   None \<Rightarrow> None
                 | Some n \<Rightarrow> find (\<lambda>r. row_id r = Some n) (details_rows t)))"

text \<open>\<^verbatim>\<open>prepare('DELETE FROM item_details WHERE id = ?').run(v)\<close>: the table left and \<^verbatim>\<open>changes\<close>.\<close>

definition delete_detail :: "env \<Rightarrow> jsval \<Rightarrow> details_table \<Rightarrow> (details_table \<times> nat) option" where
  "delete_detail e v t =
     (if \<not> bindable v then None
      else Some (case rowid_of e v of
                   None \<Rightarrow> (t, 0)
                 | Some n \<Rightarrow>
                     (t\<lparr>details_rows := filter (\<lambda>r. row_id r \<noteq> Some n) (details_rows t)\<rparr>,
                      length (filter (\<lambda>r. row_id r = Some n) (details_rows t)))))"



text \<open>
  The text of the statement \<^verbatim>\<open>updateItemWithAdvancedOptions\<close> prepares from the keys of
  the update (without the white space around it):
  \<^verbatim>\<open>UPDATE item_details SET ${setClause}, updated_at = ? WHERE id = ?\<close>.
\<close>

definition setClause :: "string list \<Rightarrow> string" where
  "setClause updateFields = join '', '' (map (\<lambda>field. field @ '' = ?'') updateFields)"

definition update_sql :: "string list \<Rightarrow> string" where
  "update_sql updateFields =
     ''UPDATE item_details SET '' @ setClause updateFields @ '', updated_at = ? WHERE id = ?''"

section \<open>ItemDetailsController: creating\<close>










section \<open>ItemDetailsController: reading and deleting\<close>



text \<open>
  \<^verbatim>\<open>deleteItemWithCleanup\<close>, with \<^verbatim>\<open>req.params.id\<close> and \<^verbatim>\<open>req.user\<close>. The row is
  read and \<^verbatim>\<open>item.attachment_ids\<close> evaluated before anything else; the four cleanup
  helpers only log; \<^verbatim>\<open>req.user.id\<close> is evaluated after the \<^verbatim>\<open>DELETE\<close> has run. Every
  exception ends in the \<^verbatim>\<open>catch\<close>, which answers 500.
\<close>

definition deleteItemWithCleanup ::
    "env \<Rightarrow> string \<Rightarrow> jsval \<Rightarrow> details_table \<Rightarrow> response \<times> details_table" where
  "deleteItemWithCleanup e pid user t =
     (case select_detail e (JStr pid) t of
        Some (Some item) \<Rightarrow>
          (case delete_detail e (JStr pid) t of
             None \<Rightarrow> (respond 500 (error_body ''Deletion failed''), t)
           | Some (t', changes) \<Rightarrow>
               if changes = 0 then (respond 404 (error_body ''Item not found''), t')
               else if get_prop user ''id'' = None
               then (respond 500 (error_body ''Deletion failed''), t')
               else (respond 200 (message_body ''Item deleted successfully''), t'))
      | _ \<Rightarrow> (respond 500 (error_body ''Deletion failed''), t))"

section \<open>ItemDetailsController: updating\<close>

definition validateUpdatePermissions :: "jsval \<Rightarrow> jsval \<Rightarrow> jsval \<Rightarrow> bool" where
  "validateUpdatePermissions permissions userId itemId =
     (if \<not> truthy permissions \<or> \<not> isArray permissions then False
      else if \<not> arr_includes permissions (JStr ''write'') \<and> \<not> arr_includes permissions (JStr ''admin'')
      then False
      else True)"

text \<open>
  A pre-processor is an object of which the code reads \<^verbatim>\<open>name\<close> and \<^verbatim>\<open>type\<close>; a custom
  validator one of which it reads \<^verbatim>\<open>field\<close> (a string, empty when absent), \<^verbatim>\<open>rule\<close>
  and \<^verbatim>\<open>value\<close> (a number, or absent). Lists of them are of these shapes.
\<close>

datatype processor = Processor (p_name: string) (p_type: string)

datatype validator = Validator (v_field: string) (v_rule: string) (v_value: "int option")

text \<open>\<^verbatim>\<open>{ ...updates }\<close>: the own enumerable properties, indices for an array or a string.\<close>

fun spread :: "jsval \<Rightarrow> row" where
  "spread (JObj kvs) = kvs"
| "spread (JArr xs) = zip (map show_nat [0..<length xs]) xs"
| "spread (JStr s) = zip (map show_nat [0..<length s]) (map (\<lambda>c. JStr [c]) s)"
| "spread _ = []"

definition sanitize :: "jsval \<Rightarrow> jsval" where
  "sanitize v = (case v of JStr s \<Rightarrow> JStr (js_trim s) | _ \<Rightarrow> v)"

definition apply_processor :: "processor \<Rightarrow> row \<Rightarrow> row" where
  "apply_processor p processedUpdates =
     (if p_type p = ''sanitize'' then map (\<lambda>(k, v). (k, sanitize v)) processedUpdates
      else processedUpdates)"

definition applyPreProcessors :: "jsval \<Rightarrow> processor list \<Rightarrow> row" where
  "applyPreProcessors updates preProcessors = fold apply_processor preProcessors (spread updates)"

text \<open>
  \<^verbatim>\<open>value.toString()\<close>: a \<^verbatim>\<open>TypeError\<close> (\<open>None\<close>) on \<^verbatim>\<open>null\<close> and on an object whose
  own \<^verbatim>\<open>toString\<close> property hides the method; an array joins its elements with commas,
  \<^verbatim>\<open>null\<close> giving the empty text.
\<close>

fun js_toString :: "jsval \<Rightarrow> string option"
  and elems_toString :: "jsval list \<Rightarrow> string list option" where
  "js_toString JUndefined = None"
| "js_toString JNull = None"
| "js_toString (JBool b) = Some (if b then ''true'' else ''false'')"
| "js_toString (JNum n) = Some (show_int n)"
| "js_toString (JStr s) = Some s"
| "js_toString (JArr xs) = map_option (join '','') (elems_toString xs)"
| "js_toString (JObj kvs) =
     (if ''toString'' \<in> set (map fst kvs) then None else Some ''[object Object]'')"
| "elems_toString [] = Some []"
| "elems_toString (x # xs) =
     (case (if nullish x then Some [] else js_toString x) of
        None \<Rightarrow> None
      | Some s \<Rightarrow> map_option ((#) s) (elems_toString xs))"

record validation =
  isValid :: bool
  errors :: "string list"

definition fail_with :: "string \<Rightarrow> validation \<Rightarrow> validation" where
  "fail_with msg res = \<lparr>isValid = False, errors = errors res @ [msg]\<rparr>"

definition required_rule :: "validator \<Rightarrow> jsval \<Rightarrow> validation \<Rightarrow> validation option" where
  "required_rule v val res =
     (if v_rule v \<noteq> ''required'' then Some res
      else if \<not> truthy val then Some (fail_with (v_field v @ '' is required'') res)
      else case js_toString val of
             None \<Rightarrow> None
           | Some s \<Rightarrow>
               if js_trim s = [] then Some (fail_with (v_field v @ '' is required'') res)
               else Some res)"

definition minLength_rule :: "validator \<Rightarrow> jsval \<Rightarrow> validation \<Rightarrow> validation option" where
  "minLength_rule v val res =
     (if v_rule v \<noteq> ''minLength'' then Some res
      else case js_toString val of
             None \<Rightarrow> None
           | Some s \<Rightarrow>
               (case v_value v of
                  None \<Rightarrow> Some res
                | Some n \<Rightarrow>
                    if int (length s) < n
                    then Some (fail_with (v_field v @ '' must be at least '' @ show_int n
                                          @ '' characters'') res)
                    else Some res))"

definition apply_validator :: "row \<Rightarrow> validator \<Rightarrow> validation \<Rightarrow> validation option" where
  "apply_validator data v res =
     (if v_field v = [] \<or> own_prop (JObj data) (v_field v) = JUndefined then Some res
      else case required_rule v (own_prop (JObj data) (v_field v)) res of
             None \<Rightarrow> None
           | Some res' \<Rightarrow> minLength_rule v (own_prop (JObj data) (v_field v)) res')"

fun run_validators :: "row \<Rightarrow> validator list \<Rightarrow> validation \<Rightarrow> validation option" where
  "run_validators data [] res = Some res"
| "run_validators data (v # vs) res =
     (case apply_validator data v res of
        None \<Rightarrow> None
      | Some res' \<Rightarrow> run_validators data vs res')"

definition validateWithCustomRules :: "row \<Rightarrow> validator list \<Rightarrow> validation" where
  "validateWithCustomRules data customValidators =
     (case run_validators data customValidators \<lparr>isValid = True, errors = []\<rparr> of
        None \<Rightarrow> \<lparr>isValid = False, errors = [''Validation error occurred'']\<rparr>
      | Some res \<Rightarrow> res)"

text \<open>
  The options of \<^verbatim>\<open>updateItemWithAdvancedOptions\<close> that its body reads, as the caller
  passes them. The other options reach only helpers that log inside their own \<^verbatim>\<open>try\<close>.
\<close>

record update_options =
  itemId :: jsval
  updates :: jsval
  userId :: jsval
  permissions :: jsval
  versioningOptions :: jsval
  customValidators :: "validator list"
  preProcessors :: "processor list"

text \<open>
  What the method throws: its own errors (Access denied, Validation failed with the
  messages, Item not found, Update failed - no rows affected), a \<^verbatim>\<open>TypeError\<close> of the
  language or of a binding, and an error of the SQL engine.
\<close>

datatype error =
    AccessDenied
  | ValidationFailed "string list"
  | ItemNotFound
  | UpdateNoRows
  | TypeError
  | SqliteError

text \<open>The \<^verbatim>\<open>permissions\<close> variable of the body, after \<^verbatim>\<open>permissions = []\<close>.\<close>

definition update_permissions :: "update_options \<Rightarrow> jsval" where
  "update_permissions options = dflt (permissions options) (JArr [])"

text \<open>The values \<^verbatim>\<open>run(...values, new Date().toISOString(), itemId)\<close> binds.\<close>

definition update_params :: "env \<Rightarrow> row \<Rightarrow> jsval \<Rightarrow> jsval list" where
  "update_params e processedUpdates idv =
     (map snd processedUpdates @ [idv]) @ [JStr (iso_now e), idv]"

text \<open>
  \<^verbatim>\<open>updateItemWithAdvancedOptions(options)\<close>: the row returned or the error thrown, and
  the table left. The helpers after the \<^verbatim>\<open>UPDATE\<close> read \<^verbatim>\<open>updatedItem.id\<close> outside
  their \<^verbatim>\<open>try\<close>, which throws when the row is no longer found.
\<close>

definition updateItemWithAdvancedOptions ::
    "env \<Rightarrow> update_options \<Rightarrow> details_table \<Rightarrow> (error + row) \<times> details_table" where
  "updateItemWithAdvancedOptions e options t =
     (if \<not> validateUpdatePermissions (update_permissions options) (userId options) (itemId options)
      then (Inl AccessDenied, t)
      else
        (let processedUpdates = applyPreProcessors (updates options) (preProcessors options);
             validationResult = validateWithCustomRules processedUpdates (customValidators options)
         in if \<not> isValid validationResult
            then (Inl (ValidationFailed (errors validationResult)), t)
            else
              (case select_detail e (itemId options) t of
                 None \<Rightarrow> (Inl TypeError, t)
               | Some None \<Rightarrow> (Inl ItemNotFound, t)
               | Some (Some currentItem) \<Rightarrow>
                   if get_prop (dflt (versioningOptions options) (JObj [])) ''enabled'' = None
                   then (Inl TypeError, t)
                   else
                     (case sql_update e (update_sql (map fst processedUpdates))
                             (update_params e processedUpdates (itemId options)) t of
                        None \<Rightarrow> (Inl SqliteError, t)
                      | Some (t', changes) \<Rightarrow>
                          if changes = 0 then (Inl UpdateNoRows, t')
                          else
                            (case select_detail e (itemId options) t' of
                               Some (Some updatedItem) \<Rightarrow> (Inr updatedItem, t')
                             | _ \<Rightarrow> (Inl TypeError, t'))))))"

section \<open>The item details routes\<close>

text \<open>
  What the item details routes read of an Express request. The application installs
  \<^verbatim>\<open>cors()\<close>, \<^verbatim>\<open>express.json()\<close> and \<^verbatim>\<open>morgan('dev')\<close> only, so a request that reaches
  a route has its path parameter and its body, and every other property the routes read
  is \<^verbatim>\<open>undefined\<close>: that request is \<open>wired\<close>.
\<close>

record request =
  params_id :: string
  req_body :: jsval
  req_user :: jsval
  req_permissions :: jsval
  req_versioningOptions :: jsval
  req_customValidators :: "validator list option"
  req_preProcessors :: "processor list option"

definition wired :: "string \<Rightarrow> jsval \<Rightarrow> request" where
  "wired pid b =
     \<lparr>params_id = pid, req_body = b, req_user = JUndefined, req_permissions = JUndefined,
      req_versioningOptions = JUndefined, req_customValidators = None, req_preProcessors = None\<rparr>"

text \<open>\<^verbatim>\<open>req.user?.id || 'anonymous'\<close>.\<close>

definition user_id_or_anonymous :: "jsval \<Rightarrow> jsval" where
  "user_id_or_anonymous user =
     (let v = (if nullish user then JUndefined else own_prop user ''id'')
      in if truthy v then v else JStr ''anonymous'')"

definition put_options :: "request \<Rightarrow> update_options" where
  "put_options req =
     \<lparr>itemId = JStr (params_id req),
      updates = req_body req,
      userId = user_id_or_anonymous (req_user req),
      permissions = req_permissions req,
      versioningOptions = req_versioningOptions req,
      customValidators = (case req_customValidators req of None \<Rightarrow> [] | Some vs \<Rightarrow> vs),
      preProcessors = (case req_preProcessors req of None \<Rightarrow> [] | Some ps \<Rightarrow> ps)\<rparr>"

definition put_details :: "env \<Rightarrow> request \<Rightarrow> details_table \<Rightarrow> response \<times> details_table" where
  "put_details e req t =
     (case updateItemWithAdvancedOptions e (put_options req) t of
        (Inl err, t') \<Rightarrow> (respond 500 (error_body ''Failed to update detailed item''), t')
      | (Inr result, t') \<Rightarrow> (respond 200 (JObj result), t'))"


definition delete_details :: "env \<Rightarrow> request \<Rightarrow> details_table \<Rightarrow> response \<times> details_table" where
  "delete_details e req t = deleteItemWithCleanup e (params_id req) (req_user req) t"

section \<open>The application at start-up, for the examples\<close>

text \<open>
  \<^verbatim>\<open>app.js\<close> inserts three items and two detailed items when it starts. A detailed
  sample row has the seven columns of its \<^verbatim>\<open>INSERT\<close>, the defaults of
  \<^verbatim>\<open>approval_required\<close> and \<^verbatim>\<open>updated_at\<close>, and \<^verbatim>\<open>NULL\<close> elsewhere.
\<close>

definition sample_detail :: "int \<Rightarrow> string \<Rightarrow> string \<Rightarrow> string \<Rightarrow> string \<Rightarrow> string \<Rightarrow> row" where
  "sample_detail n name descr cat prio st =
     [(''id'', JNum n), (''name'', JStr name), (''description'', JStr descr),
      (''category'', JStr cat), (''priority'', JStr prio), (''tags'', JNull),
      (''status'', JStr st), (''due_date'', JNull), (''assignee'', JNull),
      (''created_by'', JStr ''system''), (''custom_fields'', JNull),
      (''attachment_ids'', JNull), (''metadata'', JNull), (''dependencies'', JNull),
      (''estimated_hours'', JNull), (''budget'', JNull), (''location'', JNull),
      (''external_refs'', JNull), (''workflow_stage'', JNull),
      (''approval_required'', JNum 0), (''template_id'', JNull),
      (''parent_item_id'', JNull), (''linked_items'', JNull),
      (''reminder_settings'', JNull), (''created_at'', JStr ''2024-01-01T00:00:00.000Z''),
      (''updated_at'', JStr ''2024-01-01 00:00:00'')]"

definition details0 :: details_table where
  "details0 =
     \<lparr>details_rows =
        [sample_detail 1 ''Sample Detail Item 1''
           ''This is a sample item with detailed information that will be used for refactoring exercises''
           ''work'' ''high'' ''active'',
         sample_detail 2 ''Sample Detail Item 2''
           ''Another sample item for testing the details functionality''
           ''personal'' ''medium'' ''pending''],
      details_seq = 2\<rparr>"

definition items0 :: items_table where
  "items0 =
     \<lparr>items_rows =
        [\<lparr>item_id = 1, item_name = ''Item 1'', item_created_at = ''2024-01-01 00:00:00''\<rparr>,
         \<lparr>item_id = 2, item_name = ''Item 2'', item_created_at = ''2024-01-01 00:00:00''\<rparr>,
         \<lparr>item_id = 3, item_name = ''Item 3'', item_created_at = ''2024-01-01 00:00:00''\<rparr>],
      items_seq = 3\<rparr>"

text \<open>
  The environment of the examples. A text of decimal digits is compared as that row id.
  The examples reach \<^verbatim>\<open>JSON.parse\<close> never, and the \<^verbatim>\<open>UPDATE\<close> engine with one
  statement only, \<^verbatim>\<open>UPDATE item_details SET name = ?, description = ?, updated_at = ?
  WHERE id = ?\<close> with four texts bound, which \<open>example_update\<close> runs.
\<close>

definition decimal_rowid :: "string \<Rightarrow> int option" where
  "decimal_rowid s =
     (if s \<noteq> [] \<and> list_all (is_digit 10) s then Some (int (digits_val 10 s)) else None)"

definition set_cols :: "row \<Rightarrow> row \<Rightarrow> row" where
  "set_cols r asg = map (\<lambda>(k, v). case map_of asg k of None \<Rightarrow> (k, v) | Some v' \<Rightarrow> (k, v')) r"

definition example_update ::
    "string \<Rightarrow> jsval list \<Rightarrow> details_table \<Rightarrow> (details_table \<times> nat) option" where
  "example_update sql params t =
     (if sql = ''UPDATE item_details SET name = ?, description = ?, updated_at = ? WHERE id = ?''
      then (case params of
              [JStr n, JStr d, JStr u, JStr i] \<Rightarrow>
                (case decimal_rowid i of
                   None \<Rightarrow> Some (t, 0)
                 | Some k \<Rightarrow>
                     Some (t\<lparr>details_rows :=
                               map (\<lambda>r. if row_id r = Some k
                                         then set_cols r [(''name'', JStr n), (''description'', JStr d),
                                                          (''updated_at'', JStr u)]
                                         else r) (details_rows t)\<rparr>,
                           length (filter (\<lambda>r. row_id r = Some k) (details_rows t))))
            | _ \<Rightarrow> None)
      else None)"

definition env0 :: env where
  "env0 =
     \<lparr>iso_now = ''2024-06-01T12:00:00.000Z'', date_now = 1717243200000,
      sql_now = ''2024-06-01 12:00:00'', text_rowid = decimal_rowid,
      json_parse = (\<lambda>s. None), sql_update = example_update\<rparr>"



definition two_field_body :: jsval where
  "two_field_body =
     JObj [(''name'', JStr ''Renamed''), (''category'', JStr ''not-a-real-category'')]"



definition injection_options :: update_options where
  "injection_options =
     \<lparr>itemId = JStr ''1'',
      updates = JObj [(''name = ?, description'', JStr ''x'')],
      userId = JStr ''u1'', permissions = JArr [JStr ''write''],
      versioningOptions = JUndefined, customValidators = [], preProcessors = []\<rparr>"

section \<open>Properties of the items routes\<close>








lemma delete_item_row_absent:
  assumes "n \<notin> item_id ` set (items_rows t)"
  shows "delete_item_row n t = (t, 0)"
proof -
  from assms have "filter (\<lambda>r. item_id r \<noteq> n) (items_rows t) = items_rows t"
    by (auto simp: filter_id_conv)
  moreover from assms have "filter (\<lambda>r. item_id r = n) (items_rows t) = []"
    by (auto simp: filter_empty_conv)
  ultimately show ?thesis by (simp add: delete_item_row_def)
qed

lemma js_parseInt_Nil: "js_parseInt [] = None"
  by (simp add: js_parseInt_def)

lemma delete_items_absent:
  "js_parseInt pid = Some n \<Longrightarrow> n \<notin> item_id ` set (items_rows t) \<Longrightarrow>
   delete_items pid t = (respond 404 (error_body ''Item not found''), t)"
  by (cases "pid = []") (simp_all add: js_parseInt_Nil delete_items_def delete_item_row_absent)

lemma delete_items_removes:
  "js_parseInt pid = Some n \<Longrightarrow> n \<notin> item_id ` set (items_rows (snd (delete_items pid t)))"
  by (cases "pid = []")
     (auto simp: js_parseInt_Nil delete_items_def delete_item_row_def Let_def filter_empty_conv)

lemma parseInt_abc: "js_parseInt ''abc'' = None"
  by (simp add: js_parseInt_def is_ws_def parse_unsigned_def parse_digits_def is_digit_def
      digit_val_def)

lemma parseInt_2: "js_parseInt ''2'' = Some 2"
  by (simp add: js_parseInt_def is_ws_def parse_unsigned_def parse_digits_def is_digit_def
      digit_val_def digits_val_def)

lemma parseInt_999999: "js_parseInt ''999999'' = Some 999999"
  by (simp add: js_parseInt_def is_ws_def parse_unsigned_def parse_digits_def is_digit_def
      digit_val_def digits_val_def)

text \<open>
  Claim C10, as stated, fails: an id parameter that does not parse as an integer is
  answered 400, not 404 (NotFoundError).
\<close>

theorem delete_items_unparsable_counterexample:
  "js_parseInt ''abc'' = None \<and> status (fst (delete_items ''abc'' items0)) = 400
   \<and> status (fst (delete_items ''abc'' items0)) \<noteq> 404"
  by (simp add: parseInt_abc delete_items_def respond_def)

text \<open>
  Claim C10, amended. For every id parameter that does not parse as an integer, Item
  delete answers 400 (Valid item ID is required); for every id that parses to an integer
  whose row does not exist, it answers 404 (Item not found); in both cases the table is
  unchanged. Repeating the delete of an id that parses is answered 404 and changes nothing.
\<close>

theorem delete_items_invalid_or_missing:
  "(js_parseInt pid = None \<longrightarrow>
      delete_items pid t = (respond 400 (error_body ''Valid item ID is required''), t))
   \<and> (\<forall>n. js_parseInt pid = Some n \<and> n \<notin> item_id ` set (items_rows t) \<longrightarrow>
          delete_items pid t = (respond 404 (error_body ''Item not found''), t))
   \<and> (\<forall>n. js_parseInt pid = Some n \<longrightarrow>
          delete_items pid (snd (delete_items pid t))
            = (respond 404 (error_body ''Item not found''), snd (delete_items pid t)))"
proof (intro conjI impI allI)
  assume "js_parseInt pid = None"
  then show "delete_items pid t = (respond 400 (error_body ''Valid item ID is required''), t)"
    by (simp add: delete_items_def)
next
  fix n
  assume "js_parseInt pid = Some n \<and> n \<notin> item_id ` set (items_rows t)"
  then show "delete_items pid t = (respond 404 (error_body ''Item not found''), t)"
    by (simp add: delete_items_absent)
next
  fix n
  assume p: "js_parseInt pid = Some n"
  show "delete_items pid (snd (delete_items pid t))
            = (respond 404 (error_body ''Item not found''), snd (delete_items pid t))"
    by (rule delete_items_absent [OF p delete_items_removes [OF p]])
qed

theorem delete_items_invalid_or_missing_witness:
  "delete_items ''abc'' items0 = (respond 400 (error_body ''Valid item ID is required''), items0)
   \<and> delete_items ''999999'' items0 = (respond 404 (error_body ''Item not found''), items0)
   \<and> delete_items ''2'' (snd (delete_items ''2'' items0))
        = (respond 404 (error_body ''Item not found''), snd (delete_items ''2'' items0))"
  using delete_items_invalid_or_missing [of "''abc''" items0]
        delete_items_invalid_or_missing [of "''999999''" items0]
        delete_items_invalid_or_missing [of "''2''" items0]
  by (simp add: parseInt_abc parseInt_2 parseInt_999999 items0_def)

section \<open>Properties of the item details routes\<close>

subsection \<open>The update route as wired\<close>

lemma wired_permissions: "update_permissions (put_options (wired pid b)) = JArr []"
  by (simp add: update_permissions_def put_options_def wired_def dflt_def)

lemma empty_permissions_denied: "\<not> validateUpdatePermissions (JArr []) u i"
  by (simp add: validateUpdatePermissions_def)

lemma wired_update_denied:
  "updateItemWithAdvancedOptions e (put_options (wired pid b)) t = (Inl AccessDenied, t)"
  by (simp add: updateItemWithAdvancedOptions_def wired_permissions empty_permissions_denied)

lemma wired_put_rejected:
  "put_details e (wired pid b) t = (respond 500 (error_body ''Failed to update detailed item''), t)"
  by (simp add: put_details_def wired_update_denied)

subsection \<open>Creating\<close>


















subsection \<open>Reading back what was created\<close>














subsection \<open>Updating\<close>

text \<open>
  Claim C4, as stated, fails in one step: the route passes no permissions, but the
  permission check does not receive \<^verbatim>\<open>undefined\<close>; the default of the options replaces
  it with the empty list.
\<close>

theorem put_route_permissions_counterexample:
  "permissions (put_options (wired ''1'' two_field_body)) = JUndefined
   \<and> update_permissions (put_options (wired ''1'' two_field_body)) = JArr []
   \<and> update_permissions (put_options (wired ''1'' two_field_body)) \<noteq> JUndefined"
  by (simp add: update_permissions_def put_options_def wired_def dflt_def)

text \<open>
  Claim C4, amended. For every request that reaches \<^verbatim>\<open>PUT /api/items/:id/details\<close> as
  the application is wired, the route passes \<^verbatim>\<open>undefined\<close> for the permissions, the
  permission check receives the empty list that the options default puts in its place,
  \<^verbatim>\<open>validateUpdatePermissions\<close> returns false, \<^verbatim>\<open>updateItemWithAdvancedOptions\<close> throws
  (Access denied) and the route answers 500: whatever the id and the payload, no update
  succeeds through this route and the table is unchanged.
\<close>

theorem put_route_never_updates:
  "permissions (put_options (wired pid b)) = JUndefined
   \<and> update_permissions (put_options (wired pid b)) = JArr []
   \<and> \<not> validateUpdatePermissions (update_permissions (put_options (wired pid b)))
          (userId (put_options (wired pid b))) (itemId (put_options (wired pid b)))
   \<and> updateItemWithAdvancedOptions e (put_options (wired pid b)) t = (Inl AccessDenied, t)
   \<and> put_details e (wired pid b) t
        = (respond 500 (error_body ''Failed to update detailed item''), t)"
proof -
  have "permissions (put_options (wired pid b)) = JUndefined"
    by (simp add: put_options_def wired_def)
  then show ?thesis
    by (simp add: wired_permissions empty_permissions_denied wired_update_denied
        wired_put_rejected)
qed

theorem put_route_never_updates_witness:
  "update_permissions (put_options (wired ''1'' two_field_body)) = JArr []
   \<and> updateItemWithAdvancedOptions env0 (put_options (wired ''1'' two_field_body)) details0
        = (Inl AccessDenied, details0)
   \<and> put_details env0 (wired ''1'' two_field_body) details0
        = (respond 500 (error_body ''Failed to update detailed item''), details0)"
  using put_route_never_updates [of "''1''" two_field_body env0 details0]
  by simp











lemma rowid_1: "rowid_of env0 (JStr ''1'') = Some 1"
  by (simp add: rowid_of_def env0_def decimal_rowid_def is_digit_def digit_val_def digits_val_def)

lemma rowid_999999: "rowid_of env0 (JStr ''999999'') = Some 999999"
  by (simp add: rowid_of_def env0_def decimal_rowid_def is_digit_def digit_val_def digits_val_def)

lemma details0_row_ids:
  "row_id (sample_detail n a b c d f) = Some n"
  by (simp add: row_id_def sample_detail_def)

text \<open>
  Claim C8 at a failing input. The keys of the update are not compared with any list of
  fields; each is written into the \<^verbatim>\<open>SET\<close> clause. A caller with the write permission
  and the single key \<^verbatim>\<open>name = ?, description\<close>, which is no field of ItemDetail, makes
  the controller run a statement that assigns the columns \<^verbatim>\<open>name\<close> and
  \<^verbatim>\<open>description\<close>, and the row is returned changed.
\<close>

theorem update_key_reaches_statement:
  "update_sql (map fst (applyPreProcessors (updates injection_options) (preProcessors injection_options)))
     = ''UPDATE item_details SET name = ?, description = ?, updated_at = ? WHERE id = ?''
   \<and> (\<exists>r t'. updateItemWithAdvancedOptions env0 injection_options details0 = (Inr r, t')
         \<and> map_of r ''name'' = Some (JStr ''x'')
         \<and> map_of r ''description'' = Some (JStr ''1'')
         \<and> map_of (hd (details_rows details0)) ''name'' = Some (JStr ''Sample Detail Item 1''))"
  by (simp add: injection_options_def applyPreProcessors_def update_sql_def setClause_def
      updateItemWithAdvancedOptions_def update_permissions_def dflt_def
      validateUpdatePermissions_def validateWithCustomRules_def select_detail_def rowid_1
      details0_def details0_row_ids get_prop_def update_params_def env0_def example_update_def
      decimal_rowid_def is_digit_def digit_val_def digits_val_def set_cols_def sample_detail_def
      row_id_def rowid_of_def)

subsection \<open>Deleting\<close>

text \<open>
  Claim C6 at a failing input. \<^verbatim>\<open>DELETE /api/items/999999/details\<close>, with no row of
  that id, is answered 500 (Deletion failed), not 404: \<^verbatim>\<open>item.attachment_ids\<close> is
  evaluated on the missing row before the \<^verbatim>\<open>DELETE\<close> and its \<^verbatim>\<open>changes === 0\<close> test.
\<close>

theorem delete_missing_detail_answers_500:
  "select_detail env0 (JStr ''999999'') details0 = Some None
   \<and> delete_details env0 (wired ''999999'' JUndefined) details0
        = (respond 500 (error_body ''Deletion failed''), details0)
   \<and> status (fst (delete_details env0 (wired ''999999'' JUndefined) details0)) \<noteq> 404"
  by (simp add: delete_details_def deleteItemWithCleanup_def wired_def select_detail_def
      rowid_999999 details0_def details0_row_ids respond_def)

text \<open>
  Claim C7 at a failing input. \<^verbatim>\<open>DELETE /api/items/1/details\<close> in the application as
  wired removes row 1 and then answers 500 (Deletion failed): the call of the deletion
  log evaluates \<^verbatim>\<open>req.user.id\<close> with no \<^verbatim>\<open>req.user\<close>, after the row is gone. With a
  user on the request the same delete answers 200.
\<close>

theorem delete_detail_removed_but_500:
  "select_detail env0 (JStr ''1'') details0 \<noteq> Some None
   \<and> select_detail env0 (JStr ''1'') (snd (delete_details env0 (wired ''1'' JUndefined) details0))
        = Some None
   \<and> fst (delete_details env0 (wired ''1'' JUndefined) details0)
        = respond 500 (error_body ''Deletion failed'')
   \<and> fst (delete_details env0 ((wired ''1'' JUndefined)\<lparr>req_user := JObj [(''id'', JStr ''u1'')]\<rparr>) details0)
        = respond 200 (message_body ''Item deleted successfully'')"
  by (simp add: delete_details_def deleteItemWithCleanup_def wired_def select_detail_def
      delete_detail_def rowid_1 details0_def details0_row_ids get_prop_def)

end
